theory Spec2Isabelle
  imports Main
begin

section \<open>Python exceptions\<close>

text \<open>
  The exceptions the modelled code of \<^verbatim>\<open>gym_lib.py\<close> can raise. A function that can
  raise returns \<open>error + 'a\<close>, with \<open>Inl\<close> for the exception.
\<close>

datatype error = KeyError | AttributeError | IndexError | ValueError | AssertionError

section \<open>DoubleRoomWindyGridWorldEnv: the model\<close>

text \<open>
  The attributes \<^verbatim>\<open>__init__\<close> sets, by their names. The two gym space objects
  (\<^verbatim>\<open>action_space\<close>, \<^verbatim>\<open>observation_space\<close>) are read by none of the methods and are
  left out, and so is \<^verbatim>\<open>random_action_prob\<close>, which is read only by the random test
  whose outcome is an argument of \<open>GridWorld_step\<close> below. The attributes
  \<^verbatim>\<open>self.x\<close> and \<^verbatim>\<open>self.y\<close> do not exist before the first \<^verbatim>\<open>reset()\<close>, which
  sets both at once: the field \<open>xy\<close> is \<open>None\<close> until then.
\<close>

record grid_env =
  width :: int
  height :: int
  moves :: "(int \<times> (int \<times> int)) list"
  windy_columns :: "int list"
  windy_levels :: "int list"
  start_state :: "int \<times> int"
  goal_state :: "int \<times> int"
  door_y :: int
  wall_xs :: "int list"
  xy :: "(int \<times> int) option"

text \<open>
  \<^verbatim>\<open>__init__\<close>. The door column is \<^verbatim>\<open>int((self.width - 1) / 2)\<close>, a true division
  followed by a truncation; on the non-negative \<open>width - 1\<close> that is \<open>div\<close>.
  \<^verbatim>\<open>list(range(self.height))\<close> is \<open>[0..height - 1]\<close>, and \<^verbatim>\<open>remove(3)\<close> deletes the
  first 3.
\<close>

definition GridWorld_init :: grid_env where
  "GridWorld_init =
     (let w = 5 * 2 + 1; h = 14 in
      \<lparr> width = w, height = h,
        moves = [(0, (- 1, 0)), (1, (0, 1)), (2, (1, 0)), (3, (0, - 1))],
        windy_columns = [1, 2, 3, 4],
        windy_levels = [1, 2, 2, 2],
        start_state = (h - 1, 0),
        goal_state = (h - 1, w - 1),
        door_y = (w - 1) div 2,
        wall_xs = remove1 3 [0..h - 1],
        xy = None \<rparr>)"

text \<open>\<^verbatim>\<open>list.index\<close>: the position of the first occurrence, \<^verbatim>\<open>ValueError\<close> if there is none.\<close>

fun index :: "'a list \<Rightarrow> 'a \<Rightarrow> error + nat" where
  "index [] v = Inl ValueError"
| "index (x # xs) v =
     (if x = v then Inr 0 else (case index xs v of Inl e \<Rightarrow> Inl e | Inr i \<Rightarrow> Inr (Suc i)))"

text \<open>Reading a list at a position that \<^verbatim>\<open>index\<close> returned (never negative).\<close>

definition getitem :: "'a list \<Rightarrow> nat \<Rightarrow> error + 'a" where
  "getitem xs i = (if i < length xs then Inr (xs ! i) else Inl IndexError)"

text \<open>\<^verbatim>\<open>np.clip(a, a_min, a_max)\<close> is \<^verbatim>\<open>minimum(a_max, maximum(a, a_min))\<close>.\<close>

definition clip :: "int \<Rightarrow> int \<Rightarrow> int \<Rightarrow> int" where
  "clip a a_min a_max = min a_max (max a a_min)"

text \<open>
  The row after the wind: \<^verbatim>\<open>if self.y in self.windy_columns: self.x -=
  self.windy_levels[self.windy_columns.index(self.y)]\<close>.
\<close>

definition blow :: "grid_env \<Rightarrow> int \<Rightarrow> int \<Rightarrow> error + int" where
  "blow e x y =
     (if y \<in> set (windy_columns e) then
        (case index (windy_columns e) y of
           Inl err \<Rightarrow> Inl err
         | Inr i \<Rightarrow> (case getitem (windy_levels e) i of
                      Inl err \<Rightarrow> Inl err
                    | Inr level \<Rightarrow> Inr (x - level)))
      else Inr x)"

text \<open>
  What \<^verbatim>\<open>step\<close> and \<^verbatim>\<open>reset\<close> return: the 4-tuple (state, reward, done, info); info is
  always Python's \<^verbatim>\<open>None\<close>.
\<close>

type_synonym grid_result = "(int \<times> int) \<times> int \<times> bool \<times> unit option"

text \<open>
  \<^verbatim>\<open>step(action)\<close>. The two random draws are an argument: \<open>slip = None\<close> when
  \<^verbatim>\<open>np.random.random() < self.random_action_prob\<close> is false, and \<open>slip = Some c\<close> when it
  is true and \<^verbatim>\<open>np.random.choice(range(4))\<close> returns \<open>c\<close> (one of 0, 1, 2, 3).
  The branches follow the source line by line: the lookup \<^verbatim>\<open>self.moves[real_action]\<close>
  (\<^verbatim>\<open>KeyError\<close>), the read of \<^verbatim>\<open>self.x, self.y\<close> (\<^verbatim>\<open>AttributeError\<close> before any
  reset), the wind, the row, the column, the assertion. An exception is the value
  \<open>Inl\<close>; the environment of a call that raised is not returned.
\<close>

definition GridWorld_step :: "int \<Rightarrow> int option \<Rightarrow> grid_env \<Rightarrow> error + (grid_env \<times> grid_result)" where
  "GridWorld_step action slip e =
     (let real_action = (case slip of None \<Rightarrow> action | Some c \<Rightarrow> c) in
      case map_of (moves e) real_action of
        None \<Rightarrow> Inl KeyError
      | Some (move_x, move_y) \<Rightarrow>
         (case xy e of
            None \<Rightarrow> Inl AttributeError
          | Some (x0, y0) \<Rightarrow>
             (case blow e x0 y0 of
                Inl err \<Rightarrow> Inl err
              | Inr x1 \<Rightarrow>
                 (let next_x = (if y0 = door_y e then x1 else x1 + move_x);
                      x2 = clip next_x 0 (height e - 1);
                      next_y = (if y0 + move_y = door_y e
                                then (if x2 \<in> set (wall_xs e) then y0 else door_y e)
                                else y0 + move_y);
                      y2 = clip next_y 0 (width e - 1)
                  in if x2 \<in> set (wall_xs e) \<and> y2 = door_y e then Inl AssertionError
                     else
                      (let next_state = (x2, y2);
                           reward = (if next_state = goal_state e then 1 else 0);
                           done = (next_state = goal_state e)
                       in Inr (e\<lparr>xy := Some (x2, y2)\<rparr>, (next_state, reward, done, None)))))))"

text \<open>\<^verbatim>\<open>reset()\<close>.\<close>

definition GridWorld_reset :: "grid_env \<Rightarrow> grid_env \<times> grid_result" where
  "GridWorld_reset e = (e\<lparr>xy := Some (start_state e)\<rparr>, (start_state e, 0, False, None))"

text \<open>
  The outcomes of the random draws: no slip, or a slip to one of \<^verbatim>\<open>range(4)\<close>.
\<close>

definition slips :: "int option list" where
  "slips = [None, Some 0, Some 1, Some 2, Some 3]"

text \<open>
  The environments reachable from \<^verbatim>\<open>reset()\<close>: the constructed environment after its
  first \<^verbatim>\<open>reset()\<close>, and whatever further calls of \<^verbatim>\<open>reset()\<close> and returning calls of
  \<^verbatim>\<open>step(action)\<close> with an action index 0..3 make of it, under every outcome of the
  random draws.
\<close>

inductive reachable :: "grid_env \<Rightarrow> bool" where
  reachable_first_reset: "reachable (fst (GridWorld_reset GridWorld_init))"
| reachable_reset: "reachable e \<Longrightarrow> reachable (fst (GridWorld_reset e))"
| reachable_step:
    "reachable e \<Longrightarrow> action \<in> {0, 1, 2, 3} \<Longrightarrow> slip \<in> set slips \<Longrightarrow>
     GridWorld_step action slip e = Inr (e', r) \<Longrightarrow> reachable e'"

text \<open>
  A run of \<^verbatim>\<open>step\<close> calls, each with its action and the outcome of its random draws; it
  stops at the first exception.
\<close>

fun run :: "(int \<times> int option) list \<Rightarrow> grid_env \<Rightarrow> error + grid_env" where
  "run [] e = Inr e"
| "run ((action, slip) # rest) e =
     (case GridWorld_step action slip e of Inl err \<Rightarrow> Inl err | Inr (e', r) \<Rightarrow> run rest e')"

text \<open>
  An environment whose attributes other than the position are those the constructor
  set: no method assigns them.
\<close>

definition consts_ok :: "grid_env \<Rightarrow> bool" where
  "consts_ok e \<longleftrightarrow> e\<lparr>xy := None\<rparr> = GridWorld_init"

text \<open>
  The wind level of a column, 0 where the column is not windy; \<open>wind\<close> is its value
  under the constructor's two lists.
\<close>

definition wind_level :: "grid_env \<Rightarrow> int \<Rightarrow> int" where
  "wind_level e y =
     (if y \<in> set (windy_columns e) then
        (case index (windy_columns e) y of
           Inl err \<Rightarrow> 0
         | Inr i \<Rightarrow> (case getitem (windy_levels e) i of Inl err \<Rightarrow> 0 | Inr level \<Rightarrow> level))
      else 0)"

definition wind :: "int \<Rightarrow> int" where
  "wind y = (if y = 1 then 1 else if y = 2 \<or> y = 3 \<or> y = 4 then 2 else 0)"

text \<open>
  The invariant of the position under the constructor's constants: inside the grid, and
  in the door column 5 only in row 3, the one row that is not in \<^verbatim>\<open>wall_xs\<close>.
\<close>

definition good :: "int \<times> int \<Rightarrow> bool" where
  "good p \<longleftrightarrow> (case p of (x, y) \<Rightarrow> 0 \<le> x \<and> x \<le> 13 \<and> 0 \<le> y \<and> y \<le> 10 \<and> (y = 5 \<longrightarrow> x = 3))"

text \<open>
  The transition in the order of the specification's sentence: the wind, the row delta
  (none in the door column), the column delta, reverted when the move would enter the
  door column from a wall row, and finally both coordinates clamped. The row the wall
  test reads is the row at that point of the sentence: shifted and moved, not yet clamped.
\<close>

definition step_as_claimed :: "grid_env \<Rightarrow> int \<times> int \<Rightarrow> int \<times> int \<Rightarrow> int \<times> int" where
  "step_as_claimed e p m =
     (case (p, m) of ((x, y), (move_x, move_y)) \<Rightarrow>
        (let x1 = x - wind_level e y;
             x2 = (if y = door_y e then x1 else x1 + move_x);
             y2 = (if y + move_y = door_y e \<and> x2 \<in> set (wall_xs e) then y else y + move_y)
         in (clip x2 0 (height e - 1), clip y2 0 (width e - 1))))"

text \<open>
  The same sentence with the row clamped as soon as it is computed, so that the wall test
  reads the clamped row.
\<close>

definition step_as_amended :: "grid_env \<Rightarrow> int \<times> int \<Rightarrow> int \<times> int \<Rightarrow> int \<times> int" where
  "step_as_amended e p m =
     (case (p, m) of ((x, y), (move_x, move_y)) \<Rightarrow>
        (let x1 = x - wind_level e y;
             x2 = clip (if y = door_y e then x1 else x1 + move_x) 0 (height e - 1);
             y2 = (if y + move_y = door_y e \<and> x2 \<in> set (wall_xs e) then y else y + move_y)
         in (x2, clip y2 0 (width e - 1))))"

section \<open>FourierBasis: the model\<close>












section \<open>GymPreprocessing: the model\<close>

text \<open>
  The wrapped environment is any Python object: \<open>'e\<close> is its state, and its class gives
  what the wrapper asks of it: reading an attribute by name (\<^verbatim>\<open>AttributeError\<close> when
  there is none), \<^verbatim>\<open>reset()\<close> and \<^verbatim>\<open>step(action)\<close>, which returns the 4-tuple that the
  wrapper unpacks. Each may raise, and may change the environment.
\<close>

record ('e, 'a, 'o, 'r, 'i, 't, 'v) env_class =
  getattr :: "'e \<Rightarrow> string \<Rightarrow> error + 'v"
  reset_method :: "'e \<Rightarrow> error + ('e \<times> 't)"
  step_method :: "'e \<Rightarrow> 'a \<Rightarrow> error + ('e \<times> ('o \<times> 'r \<times> bool \<times> 'i))"

text \<open>The wrapper's two attributes.\<close>

record 'e GymPreprocessing =
  environment :: 'e
  game_over :: bool

text \<open>\<^verbatim>\<open>__init__(self, environment)\<close>.\<close>

definition GymPreprocessing_init :: "'e \<Rightarrow> 'e GymPreprocessing" where
  "GymPreprocessing_init env = \<lparr> environment = env, game_over = False \<rparr>"

text \<open>The four properties.\<close>

definition observation_space ::
  "('e, 'a, 'o, 'r, 'i, 't, 'v) env_class \<Rightarrow> 'e GymPreprocessing \<Rightarrow> error + 'v" where
  "observation_space C self = getattr C (environment self) ''observation_space''"

definition action_space ::
  "('e, 'a, 'o, 'r, 'i, 't, 'v) env_class \<Rightarrow> 'e GymPreprocessing \<Rightarrow> error + 'v" where
  "action_space C self = getattr C (environment self) ''action_space''"

definition reward_range ::
  "('e, 'a, 'o, 'r, 'i, 't, 'v) env_class \<Rightarrow> 'e GymPreprocessing \<Rightarrow> error + 'v" where
  "reward_range C self = getattr C (environment self) ''reward_range''"

definition metadata ::
  "('e, 'a, 'o, 'r, 'i, 't, 'v) env_class \<Rightarrow> 'e GymPreprocessing \<Rightarrow> error + 'v" where
  "metadata C self = getattr C (environment self) ''metadata''"

text \<open>
  \<^verbatim>\<open>reset()\<close> and \<^verbatim>\<open>step(action)\<close>. An exception of the wrapped environment passes
  through; \<^verbatim>\<open>step\<close> assigns \<^verbatim>\<open>self.game_over\<close> only after the wrapped call returned.
\<close>

definition GymPreprocessing_reset ::
  "('e, 'a, 'o, 'r, 'i, 't, 'v) env_class \<Rightarrow> 'e GymPreprocessing \<Rightarrow> error + ('e GymPreprocessing \<times> 't)" where
  "GymPreprocessing_reset C self =
     (case reset_method C (environment self) of
        Inl err \<Rightarrow> Inl err
      | Inr (env', r) \<Rightarrow> Inr (self\<lparr>environment := env'\<rparr>, r))"

definition GymPreprocessing_step ::
  "('e, 'a, 'o, 'r, 'i, 't, 'v) env_class \<Rightarrow> 'e GymPreprocessing \<Rightarrow> 'a \<Rightarrow>
     error + ('e GymPreprocessing \<times> ('o \<times> 'r \<times> bool \<times> 'i))" where
  "GymPreprocessing_step C self action =
     (case step_method C (environment self) action of
        Inl err \<Rightarrow> Inl err
      | Inr (env', (observation, reward, go, info)) \<Rightarrow>
          Inr (self\<lparr>environment := env', game_over := go\<rparr>, (observation, reward, go, info)))"

text \<open>\<open>n\<close> calls of \<^verbatim>\<open>reset()\<close> in a row, stopping at the first exception.\<close>

fun resets ::
  "('e, 'a, 'o, 'r, 'i, 't, 'v) env_class \<Rightarrow> nat \<Rightarrow> 'e GymPreprocessing \<Rightarrow> error + 'e GymPreprocessing" where
  "resets C 0 self = Inr self"
| "resets C (Suc n) self =
     (case GymPreprocessing_reset C self of Inl err \<Rightarrow> Inl err | Inr (self', r) \<Rightarrow> resets C n self')"

text \<open>
  The gridworld as a wrapped environment, for a fixed outcome of the random draws. Its
  two spaces are the ones its constructor builds; \<^verbatim>\<open>reward_range\<close> and \<^verbatim>\<open>metadata\<close>
  are inherited from \<^verbatim>\<open>gym.Env\<close>, outside this repository, and stand here by their
  names.
\<close>

datatype attr = Discrete int | Tuple "attr list" | Inherited string

definition GridWorld_class ::
  "int option \<Rightarrow> (grid_env, int, int \<times> int, int, unit option, grid_result, attr) env_class" where
  "GridWorld_class slip =
     \<lparr> getattr = (\<lambda>e name.
          if name = ''observation_space'' then Inr (Tuple [Discrete (height e), Discrete (width e)])
          else if name = ''action_space'' then Inr (Discrete 4)
          else if name = ''reward_range'' \<or> name = ''metadata'' then Inr (Inherited name)
          else Inl AttributeError),
       reset_method = (\<lambda>e. Inr (GridWorld_reset e)),
       step_method = (\<lambda>e action. GridWorld_step action slip e) \<rparr>"

section \<open>DoubleRoomWindyGridWorldEnv: what the constructor fixes\<close>

lemma init_fields:
  "width GridWorld_init = 11" "height GridWorld_init = 14"
  "moves GridWorld_init = [(0, (- 1, 0)), (1, (0, 1)), (2, (1, 0)), (3, (0, - 1))]"
  "windy_columns GridWorld_init = [1, 2, 3, 4]"
  "windy_levels GridWorld_init = [1, 2, 2, 2]"
  "start_state GridWorld_init = (13, 0)"
  "goal_state GridWorld_init = (13, 10)"
  "door_y GridWorld_init = 5"
  "xy GridWorld_init = None"
  by (simp_all add: GridWorld_init_def)

lemma init_wall_xs: "wall_xs GridWorld_init = [0, 1, 2, 4, 5, 6, 7, 8, 9, 10, 11, 12, 13]"
  by (simp add: GridWorld_init_def Let_def upto.simps)

lemma consts_ok_fields:
  assumes "consts_ok e"
  shows "width e = 11" "height e = 14"
    "moves e = [(0, (- 1, 0)), (1, (0, 1)), (2, (1, 0)), (3, (0, - 1))]"
    "windy_columns e = [1, 2, 3, 4]" "windy_levels e = [1, 2, 2, 2]"
    "start_state e = (13, 0)" "goal_state e = (13, 10)" "door_y e = 5"
    "wall_xs e = [0, 1, 2, 4, 5, 6, 7, 8, 9, 10, 11, 12, 13]"
proof -
  have eq: "e\<lparr>xy := None\<rparr> = GridWorld_init" using assms by (simp add: consts_ok_def)
  show "width e = 11" using arg_cong [OF eq, of width] by (simp add: init_fields)
  show "height e = 14" using arg_cong [OF eq, of height] by (simp add: init_fields)
  show "moves e = [(0, (- 1, 0)), (1, (0, 1)), (2, (1, 0)), (3, (0, - 1))]"
    using arg_cong [OF eq, of moves] by (simp add: init_fields)
  show "windy_columns e = [1, 2, 3, 4]" using arg_cong [OF eq, of windy_columns] by (simp add: init_fields)
  show "windy_levels e = [1, 2, 2, 2]" using arg_cong [OF eq, of windy_levels] by (simp add: init_fields)
  show "start_state e = (13, 0)" using arg_cong [OF eq, of start_state] by (simp add: init_fields)
  show "goal_state e = (13, 10)" using arg_cong [OF eq, of goal_state] by (simp add: init_fields)
  show "door_y e = 5" using arg_cong [OF eq, of door_y] by (simp add: init_fields)
  show "wall_xs e = [0, 1, 2, 4, 5, 6, 7, 8, 9, 10, 11, 12, 13]"
    using arg_cong [OF eq, of wall_xs] by (simp add: init_wall_xs)
qed

lemma consts_ok_xy_update: "consts_ok e \<Longrightarrow> consts_ok (e\<lparr>xy := p\<rparr>)"
  by (simp add: consts_ok_def)

lemma consts_ok_init: "consts_ok GridWorld_init"
  by (simp add: consts_ok_def GridWorld_init_def Let_def)

lemma in_wall_xs:
  "consts_ok e \<Longrightarrow> x \<in> set (wall_xs e) \<longleftrightarrow> 0 \<le> x \<and> x \<le> 13 \<and> x \<noteq> 3"
  by (simp add: consts_ok_fields) arith

lemma blow_consts: "consts_ok e \<Longrightarrow> blow e x y = Inr (x - wind y)"
  by (simp add: blow_def wind_def consts_ok_fields getitem_def)

lemma moves_consts:
  "consts_ok e \<Longrightarrow> map_of (moves e) a =
     (if a = 0 then Some (- 1, 0) else if a = 1 then Some (0, 1) else if a = 2 then Some (1, 0)
      else if a = 3 then Some (0, - 1) else None)"
  by (simp add: consts_ok_fields)

section \<open>DoubleRoomWindyGridWorldEnv: one step under the invariant\<close>

lemma step_consts:
  assumes c: "consts_ok e" and p: "xy e = Some (x, y)"
    and m: "map_of (moves e) (case slip of None \<Rightarrow> action | Some c \<Rightarrow> c) = Some (mx, my)"
  shows "GridWorld_step action slip e =
     (let x2 = clip (if y = 5 then x - wind y else x - wind y + mx) 0 13;
          y2 = clip (if y + my = 5 then (if x2 \<in> set (wall_xs e) then y else 5) else y + my) 0 10
      in if x2 \<in> set (wall_xs e) \<and> y2 = 5 then Inl AssertionError
         else Inr (e\<lparr>xy := Some (x2, y2)\<rparr>,
                   ((x2, y2), (if (x2, y2) = (13, 10) then 1 else 0), (x2, y2) = (13, 10), None)))"
  using m p
  by (simp add: GridWorld_step_def blow_consts [OF c] consts_ok_fields(1,2,7,8) [OF c] Let_def
      split del: if_split cong: if_cong)

lemma move_good:
  assumes g: "good (x, y)" and m: "(mx, my) \<in> {(- 1, 0), (0, 1), (1, 0), (0, - 1)}"
    and x2: "x2 = clip (if y = 5 then x - wind y else x - wind y + mx) 0 13"
    and y2: "y2 = clip (if y + my = 5 then (if 0 \<le> x2 \<and> x2 \<le> 13 \<and> x2 \<noteq> 3 then y else 5) else y + my) 0 10"
  shows "good (x2, y2)"
proof -
  have bx: "0 \<le> x2 \<and> x2 \<le> 13" unfolding x2 clip_def by simp
  have by2: "0 \<le> y2 \<and> y2 \<le> 10" unfolding y2 clip_def by simp
  have gy: "0 \<le> y \<and> y \<le> 10" and gd: "y = 5 \<longrightarrow> x = 3"
    using g by (simp_all add: good_def)
  have my: "my = 0 \<or> my = 1 \<or> my = - 1" using m by auto
  have door: "x2 = 3" if d: "y2 = 5"
  proof (cases "y + my = 5")
    case True
    show ?thesis
    proof (cases "0 \<le> x2 \<and> x2 \<le> 13 \<and> x2 \<noteq> 3")
      case blocked: True
      with \<open>y + my = 5\<close> d have "y = 5" unfolding y2 clip_def using gy by simp
      with gd have "x = 3" by simp
      with \<open>y = 5\<close> have "x2 = 3" unfolding x2 clip_def wind_def by simp
      with blocked show ?thesis by simp
    next
      case False
      with bx show ?thesis by arith
    qed
  next
    case False
    with d gy my show ?thesis unfolding y2 clip_def by (simp split: if_splits)
  qed
  show ?thesis using bx by2 door by (simp add: good_def)
qed

lemma wind_level_consts: "consts_ok e \<Longrightarrow> wind_level e y = wind y"
  by (simp add: wind_level_def wind_def consts_ok_fields getitem_def)

lemma step_explicit:
  assumes c: "consts_ok e" and p: "xy e = Some (x, y)" and g: "good (x, y)"
    and m: "map_of (moves e) (case slip of None \<Rightarrow> action | Some c \<Rightarrow> c) = Some (mx, my)"
    and x2: "x2 = clip (if y = 5 then x - wind y else x - wind y + mx) 0 13"
    and y2: "y2 = clip (if y + my = 5 then (if x2 \<in> set (wall_xs e) then y else 5) else y + my) 0 10"
  shows "good (x2, y2) \<and> GridWorld_step action slip e =
      Inr (e\<lparr>xy := Some (x2, y2)\<rparr>, ((x2, y2), (if (x2, y2) = (13, 10) then 1 else 0), (x2, y2) = (13, 10), None))"
proof -
  have mm: "(mx, my) \<in> {(- 1, 0), (0, 1), (1, 0), (0, - 1)}"
    using m by (auto simp add: moves_consts [OF c] split: if_splits)
  have y2': "y2 = clip (if y + my = 5 then (if 0 \<le> x2 \<and> x2 \<le> 13 \<and> x2 \<noteq> 3 then y else 5) else y + my) 0 10"
    by (simp only: y2 in_wall_xs [OF c])
  have g2: "good (x2, y2)" by (rule move_good [OF g mm x2 y2'])
  then have ok: "\<not> (x2 \<in> set (wall_xs e) \<and> y2 = 5)"
    by (auto simp add: good_def in_wall_xs [OF c])
  have "GridWorld_step action slip e =
      (if x2 \<in> set (wall_xs e) \<and> y2 = 5 then Inl AssertionError
       else Inr (e\<lparr>xy := Some (x2, y2)\<rparr>,
                 ((x2, y2), (if (x2, y2) = (13, 10) then 1 else 0), (x2, y2) = (13, 10), None)))"
    unfolding step_consts [OF c p m] Let_def x2 [symmetric] y2 [symmetric] ..
  then have "GridWorld_step action slip e =
      Inr (e\<lparr>xy := Some (x2, y2)\<rparr>, ((x2, y2), (if (x2, y2) = (13, 10) then 1 else 0), (x2, y2) = (13, 10), None))"
    using ok by (simp only: if_False)
  with g2 show ?thesis by blast
qed

lemma step_good:
  assumes c: "consts_ok e" and p: "xy e = Some (x, y)" and g: "good (x, y)"
    and a: "(case slip of None \<Rightarrow> action | Some c \<Rightarrow> c) \<in> {0, 1, 2, 3}"
  shows "\<exists>p'. good p' \<and>
           GridWorld_step action slip e =
             Inr (e\<lparr>xy := Some p'\<rparr>, (p', (if p' = (13, 10) then 1 else 0), p' = (13, 10), None))"
proof -
  obtain mx my where m: "map_of (moves e) (case slip of None \<Rightarrow> action | Some c \<Rightarrow> c) = Some (mx, my)"
    using a by (auto simp add: moves_consts [OF c])
  from step_explicit [OF c p g m refl refl] show ?thesis by blast
qed

section \<open>DoubleRoomWindyGridWorldEnv: reachable environments\<close>

lemma reachable_run:
  "reachable e \<Longrightarrow> list_all (\<lambda>(action, slip). action \<in> {0, 1, 2, 3} \<and> slip \<in> set slips) steps \<Longrightarrow>
   run steps e = Inr e' \<Longrightarrow> reachable e'"
proof (induction steps arbitrary: e)
  case Nil
  then show ?case by simp
next
  case (Cons s steps)
  obtain action slip where s: "s = (action, slip)" by (cases s)
  from Cons.prems(3) obtain e1 r where st: "GridWorld_step action slip e = Inr (e1, r)"
    and rest: "run steps e1 = Inr e'"
    by (auto simp add: s split: sum.splits)
  from Cons.prems(2) have v: "action \<in> {0, 1, 2, 3}" "slip \<in> set slips"
    and vs: "list_all (\<lambda>(action, slip). action \<in> {0, 1, 2, 3} \<and> slip \<in> set slips) steps"
    by (simp_all add: s)
  have "reachable e1" by (rule reachable_step [OF Cons.prems(1) v st])
  then show ?case by (rule Cons.IH [OF _ vs rest])
qed

lemma real_action_valid:
  "action \<in> {0, 1, 2, 3} \<Longrightarrow> slip \<in> set slips \<Longrightarrow>
   (case slip of None \<Rightarrow> action | Some c \<Rightarrow> c) \<in> {0, 1, 2, 3}"
  by (auto simp add: slips_def)

lemma reachable_inv: "reachable e \<Longrightarrow> consts_ok e \<and> (\<exists>p. xy e = Some p \<and> good p)"
proof (induction rule: reachable.induct)
  case reachable_first_reset
  show ?case
    by (simp add: GridWorld_reset_def consts_ok_xy_update [OF consts_ok_init] init_fields good_def)
next
  case (reachable_reset e)
  then have c: "consts_ok e" by simp
  show ?case
    by (simp add: GridWorld_reset_def consts_ok_xy_update [OF c] consts_ok_fields [OF c] good_def)
next
  case (reachable_step e action slip e' r)
  then obtain x y where c: "consts_ok e" and p: "xy e = Some (x, y)" and g: "good (x, y)"
    by auto
  from step_good [OF c p g real_action_valid [OF reachable_step.hyps(2,3)]]
  obtain p' where g': "good p'" and "GridWorld_step action slip e =
      Inr (e\<lparr>xy := Some p'\<rparr>, (p', (if p' = (13, 10) then 1 else 0), p' = (13, 10), None))"
    by blast
  with reachable_step.hyps(4) have "e' = e\<lparr>xy := Some p'\<rparr>" by simp
  with g' c show ?case by (simp add: consts_ok_xy_update)
qed

lemma run_to_door:
  "run [(1, None), (1, None), (1, None), (1, None), (2, None), (2, None), (2, None), (1, None)]
     (fst (GridWorld_reset GridWorld_init)) = Inr (GridWorld_init\<lparr>xy := Some (3, 5)\<rparr>)"
  by code_simp

lemma reachable_door: "reachable (GridWorld_init\<lparr>xy := Some (3, 5)\<rparr>)"
  by (rule reachable_run [OF reachable_first_reset _ run_to_door]) (simp add: slips_def)

lemma run_to_0_4:
  "run [(1, None), (1, None), (1, None), (1, None), (0, None), (0, None), (0, None)]
     (fst (GridWorld_reset GridWorld_init)) = Inr (GridWorld_init\<lparr>xy := Some (0, 4)\<rparr>)"
  by code_simp

lemma reachable_0_4: "reachable (GridWorld_init\<lparr>xy := Some (0, 4)\<rparr>)"
  by (rule reachable_run [OF reachable_first_reset _ run_to_0_4]) (simp add: slips_def)

lemma run_door_to_12_10:
  "run [(1, None), (1, None), (1, None), (1, None), (1, None),
        (2, None), (2, None), (2, None), (2, None), (2, None), (2, None), (2, None), (2, None), (2, None)]
     (GridWorld_init\<lparr>xy := Some (3, 5)\<rparr>) = Inr (GridWorld_init\<lparr>xy := Some (12, 10)\<rparr>)"
  by code_simp

lemma reachable_12_10: "reachable (GridWorld_init\<lparr>xy := Some (12, 10)\<rparr>)"
  by (rule reachable_run [OF reachable_door _ run_door_to_12_10]) (simp add: slips_def)

section \<open>DoubleRoomWindyGridWorldEnv: the claims\<close>

text \<open>
  C2. In every environment reachable from \<^verbatim>\<open>reset()\<close> by calls of \<^verbatim>\<open>step\<close> with an
  action index 0..3, under every outcome of the random slip, the position exists, lies in
  \<open>[0, height - 1] \<times> [0, width - 1]\<close> and is never in a wall row at the door column; and the
  next \<^verbatim>\<open>step\<close>, for every action index and every outcome of the slip, does not fail its
  assertion: it returns.
\<close>

theorem gridworld_position_invariant:
  "reachable e \<Longrightarrow>
     (\<exists>x y. xy e = Some (x, y) \<and> 0 \<le> x \<and> x \<le> height e - 1 \<and> 0 \<le> y \<and> y \<le> width e - 1 \<and>
        \<not> (x \<in> set (wall_xs e) \<and> y = door_y e)) \<and>
     (\<forall>action \<in> {0, 1, 2, 3}. \<forall>slip \<in> set slips.
        GridWorld_step action slip e \<noteq> Inl AssertionError \<and>
        (\<exists>e' r. GridWorld_step action slip e = Inr (e', r)))"
proof -
  assume r: "reachable e"
  from reachable_inv [OF r] obtain x y where c: "consts_ok e" and p: "xy e = Some (x, y)"
    and g: "good (x, y)" by auto
  have pos: "\<exists>x y. xy e = Some (x, y) \<and> 0 \<le> x \<and> x \<le> height e - 1 \<and> 0 \<le> y \<and> y \<le> width e - 1 \<and>
        \<not> (x \<in> set (wall_xs e) \<and> y = door_y e)"
    using p g by (auto simp add: good_def in_wall_xs [OF c] consts_ok_fields(1,2,8) [OF c])
  have steps: "GridWorld_step action slip e \<noteq> Inl AssertionError \<and>
        (\<exists>e' r. GridWorld_step action slip e = Inr (e', r))"
    if "action \<in> {0, 1, 2, 3}" "slip \<in> set slips" for action slip
    using step_good [OF c p g real_action_valid [OF that]] by auto
  from pos steps show ?thesis by blast
qed

theorem gridworld_position_invariant_witness:
  "reachable (GridWorld_init\<lparr>xy := Some (3, 5)\<rparr>) \<and>
   xy (GridWorld_init\<lparr>xy := Some (3, 5)\<rparr>) = Some (3, 5) \<and>
   door_y (GridWorld_init\<lparr>xy := Some (3, 5)\<rparr>) = 5 \<and>
   3 \<notin> set (wall_xs (GridWorld_init\<lparr>xy := Some (3, 5)\<rparr>)) \<and>
   GridWorld_step 0 (Some 1) (GridWorld_init\<lparr>xy := Some (3, 5)\<rparr>) \<noteq> Inl AssertionError \<and>
   (\<exists>e' r. GridWorld_step 0 (Some 1) (GridWorld_init\<lparr>xy := Some (3, 5)\<rparr>) = Inr (e', r))"
  using gridworld_position_invariant [OF reachable_door] reachable_door
  by (simp add: init_fields init_wall_xs slips_def)

text \<open>
  C3, as amended. In a reachable environment at position \<open>p\<close>, a \<^verbatim>\<open>step\<close> whose executed
  (possibly slip-replaced) action has the move \<open>m\<close> returns, and moves to
  \<open>step_as_amended e p m\<close>: the row is decreased by the wind level of the current column, the
  row delta is added unless the current column is the door column, and the row is clamped
  at once; the column delta is reverted when the move would enter the door column and the
  clamped row is a wall row, and applied otherwise; the column is clamped last.
\<close>

theorem step_moves_as_amended:
  assumes r: "reachable e" and p: "xy e = Some p"
    and m: "map_of (moves e) (case slip of None \<Rightarrow> action | Some c \<Rightarrow> c) = Some m"
  shows "\<exists>reward done. GridWorld_step action slip e =
           Inr (e\<lparr>xy := Some (step_as_amended e p m)\<rparr>, (step_as_amended e p m, reward, done, None))"
proof -
  obtain x y where pxy: "p = (x, y)" by (cases p)
  obtain mx my where mxy: "m = (mx, my)" by (cases m)
  from reachable_inv [OF r] p pxy have c: "consts_ok e" and g: "good (x, y)" by auto
  define x2 where "x2 = clip (if y = 5 then x - wind y else x - wind y + mx) 0 13"
  define y2 where "y2 = clip (if y + my = 5 then (if x2 \<in> set (wall_xs e) then y else 5) else y + my) 0 10"
  have am: "step_as_amended e p m = (x2, y2)"
    unfolding step_as_amended_def pxy mxy x2_def y2_def
    by (auto simp add: Let_def wind_level_consts [OF c] consts_ok_fields(1,2,8) [OF c])
  from step_explicit [OF c p [unfolded pxy] g m [unfolded mxy] x2_def y2_def]
  show ?thesis unfolding am by blast
qed

theorem step_moves_as_amended_witness:
  "reachable (GridWorld_init\<lparr>xy := Some (0, 4)\<rparr>) \<and>
   xy (GridWorld_init\<lparr>xy := Some (0, 4)\<rparr>) = Some (0, 4) \<and>
   map_of (moves (GridWorld_init\<lparr>xy := Some (0, 4)\<rparr>)) 1 = Some (0, 1) \<and>
   step_as_amended (GridWorld_init\<lparr>xy := Some (0, 4)\<rparr>) (0, 4) (0, 1) = (0, 4) \<and>
   (\<exists>reward done. GridWorld_step 1 None (GridWorld_init\<lparr>xy := Some (0, 4)\<rparr>) =
      Inr (GridWorld_init\<lparr>xy := Some (0, 4)\<rparr>, ((0, 4), reward, done, None)))"
proof -
  let ?e = "GridWorld_init\<lparr>xy := Some (0, 4)\<rparr>"
  have p: "xy ?e = Some (0, 4)" by simp
  have m: "map_of (moves ?e) (case None of None \<Rightarrow> 1 | Some c \<Rightarrow> c) = Some (0, 1)"
    by (simp add: init_fields)
  have v: "step_as_amended ?e (0, 4) (0, 1) = (0, 4)" by code_simp
  from step_moves_as_amended [OF reachable_0_4 p m]
  show ?thesis using reachable_0_4 m unfolding v by simp
qed

text \<open>
  The claim as it is worded fails: at the reachable position (0, 4), with the action 1
  (right) and no slip, the wind takes the row to -2, which is no wall row, so that the
  worded transition enters the door column and ends in the wall cell (0, 5); the code
  clamps the row to 0 first, finds a wall row and stays at (0, 4).
\<close>

theorem step_as_claimed_counterexample:
  "reachable (GridWorld_init\<lparr>xy := Some (0, 4)\<rparr>) \<and>
   GridWorld_step 1 None (GridWorld_init\<lparr>xy := Some (0, 4)\<rparr>) =
     Inr (GridWorld_init\<lparr>xy := Some (0, 4)\<rparr>, ((0, 4), 0, False, None)) \<and>
   step_as_claimed (GridWorld_init\<lparr>xy := Some (0, 4)\<rparr>) (0, 4) (0, 1) = (0, 5)"
proof (intro conjI)
  show "reachable (GridWorld_init\<lparr>xy := Some (0, 4)\<rparr>)"
    by (rule reachable_0_4)
  show "GridWorld_step 1 None (GridWorld_init\<lparr>xy := Some (0, 4)\<rparr>) =
     Inr (GridWorld_init\<lparr>xy := Some (0, 4)\<rparr>, ((0, 4), 0, False, None))"
    by code_simp
  show "step_as_claimed (GridWorld_init\<lparr>xy := Some (0, 4)\<rparr>) (0, 4) (0, 1) = (0, 5)"
    by code_simp
qed

lemma step_result_shape:
  "GridWorld_step action slip e = Inr (e', (s, reward, done, info)) \<Longrightarrow>
   xy e' = Some s \<and> done = (s = goal_state e) \<and> reward = (if s = goal_state e then 1 else 0) \<and>
   info = None"
  by (auto simp add: GridWorld_step_def Let_def split: option.splits sum.splits prod.splits if_splits)

text \<open>
  C4. Whenever \<^verbatim>\<open>step\<close> returns, for any action and any outcome of the slip, the state
  it returns is the new position, and the reward is 1 and done is True if that position is
  the goal cell \<open>(height - 1, width - 1)\<close>; otherwise the reward is 0 and done is False.
\<close>

theorem step_reward_done:
  assumes r: "reachable e"
    and st: "GridWorld_step action slip e = Inr (e', (s, reward, done, info))"
  shows "xy e' = Some s \<and>
         (if s = (height e - 1, width e - 1) then reward = 1 \<and> done else reward = 0 \<and> \<not> done)"
proof -
  from reachable_inv [OF r] have c: "consts_ok e" by simp
  have "goal_state e = (height e - 1, width e - 1)"
    by (simp add: consts_ok_fields [OF c])
  with step_result_shape [OF st] show ?thesis by simp
qed

theorem step_reward_done_witness:
  "reachable (GridWorld_init\<lparr>xy := Some (12, 10)\<rparr>) \<and>
   GridWorld_step 2 None (GridWorld_init\<lparr>xy := Some (12, 10)\<rparr>) =
     Inr (GridWorld_init\<lparr>xy := Some (13, 10)\<rparr>, ((13, 10), 1, True, None)) \<and>
   xy (GridWorld_init\<lparr>xy := Some (13, 10)\<rparr>) = Some (13, 10) \<and>
   (13, 10) = (height (GridWorld_init\<lparr>xy := Some (12, 10)\<rparr>) - 1,
               width (GridWorld_init\<lparr>xy := Some (12, 10)\<rparr>) - 1)"
proof -
  have st: "GridWorld_step 2 None (GridWorld_init\<lparr>xy := Some (12, 10)\<rparr>) =
     Inr (GridWorld_init\<lparr>xy := Some (13, 10)\<rparr>, ((13, 10), 1, True, None))"
    by code_simp
  from step_reward_done [OF reachable_12_10 st]
  show ?thesis using reachable_12_10 st by (simp add: init_fields split: if_splits)
qed

text \<open>
  C5. Every call of \<^verbatim>\<open>reset()\<close>, on the constructed environment or on any environment
  reached later, sets the position to the start cell \<open>(height - 1, 0)\<close> and returns that
  cell with reward 0, done False and info None.
\<close>

theorem reset_returns_start:
  assumes "e = GridWorld_init \<or> reachable e"
  shows "GridWorld_reset e =
           (e\<lparr>xy := Some (height e - 1, 0)\<rparr>, ((height e - 1, 0), 0, False, None))"
proof -
  from assms reachable_inv consts_ok_init have c: "consts_ok e" by blast
  show ?thesis by (simp add: GridWorld_reset_def consts_ok_fields [OF c])
qed

theorem reset_returns_start_witness:
  "GridWorld_reset GridWorld_init =
     (GridWorld_init\<lparr>xy := Some (13, 0)\<rparr>, ((13, 0), 0, False, None))"
  using reset_returns_start [of GridWorld_init] by (simp add: init_fields)

section \<open>FourierBasis: the multiplier rows\<close>




























section \<open>GymPreprocessing: delegation and the terminal flag\<close>

text \<open>
  C9. The four properties are the wrapped environment's attributes of the same names;
  \<^verbatim>\<open>reset()\<close> returns what the wrapped \<^verbatim>\<open>reset()\<close> returns; \<^verbatim>\<open>step(action)\<close> returns the
  wrapped environment's tuple (observation, reward, done, info) and sets \<^verbatim>\<open>game_over\<close>
  to the returned done flag; an exception of the wrapped environment passes unchanged.
\<close>

theorem wrapper_delegates:
  "observation_space C self = getattr C (environment self) ''observation_space'' \<and>
   action_space C self = getattr C (environment self) ''action_space'' \<and>
   reward_range C self = getattr C (environment self) ''reward_range'' \<and>
   metadata C self = getattr C (environment self) ''metadata'' \<and>
   (\<forall>env' r. reset_method C (environment self) = Inr (env', r) \<longrightarrow>
      GymPreprocessing_reset C self = Inr (self\<lparr>environment := env'\<rparr>, r)) \<and>
   (\<forall>err. reset_method C (environment self) = Inl err \<longrightarrow> GymPreprocessing_reset C self = Inl err) \<and>
   (\<forall>env' observation reward d info.
      step_method C (environment self) action = Inr (env', (observation, reward, d, info)) \<longrightarrow>
      GymPreprocessing_step C self action =
        Inr (self\<lparr>environment := env', game_over := d\<rparr>, (observation, reward, d, info))) \<and>
   (\<forall>err. step_method C (environment self) action = Inl err \<longrightarrow>
      GymPreprocessing_step C self action = Inl err)"
  by (simp add: observation_space_def action_space_def reward_range_def metadata_def
      GymPreprocessing_reset_def GymPreprocessing_step_def)

theorem wrapper_delegates_witness:
  "observation_space (GridWorld_class None) (GymPreprocessing_init (GridWorld_init\<lparr>xy := Some (12, 10)\<rparr>)) =
     Inr (Tuple [Discrete 14, Discrete 11]) \<and>
   action_space (GridWorld_class None) (GymPreprocessing_init (GridWorld_init\<lparr>xy := Some (12, 10)\<rparr>)) =
     Inr (Discrete 4) \<and>
   GymPreprocessing_reset (GridWorld_class None) (GymPreprocessing_init (GridWorld_init\<lparr>xy := Some (12, 10)\<rparr>)) =
     Inr (\<lparr> environment = GridWorld_init\<lparr>xy := Some (13, 0)\<rparr>, game_over = False \<rparr>,
          ((13, 0), 0, False, None)) \<and>
   GymPreprocessing_step (GridWorld_class None) (GymPreprocessing_init (GridWorld_init\<lparr>xy := Some (12, 10)\<rparr>)) 2 =
     Inr (\<lparr> environment = GridWorld_init\<lparr>xy := Some (13, 10)\<rparr>, game_over = True \<rparr>,
          ((13, 10), 1, True, None))"
proof -
  let ?C = "GridWorld_class None"
  let ?w = "GymPreprocessing_init (GridWorld_init\<lparr>xy := Some (12, 10)\<rparr>)"
  have o: "getattr ?C (environment ?w) ''observation_space'' = Inr (Tuple [Discrete 14, Discrete 11])"
    by code_simp
  have a: "getattr ?C (environment ?w) ''action_space'' = Inr (Discrete 4)"
    by code_simp
  have r: "reset_method ?C (environment ?w) =
      Inr (GridWorld_init\<lparr>xy := Some (13, 0)\<rparr>, ((13, 0), 0, False, None))"
    by code_simp
  have s: "step_method ?C (environment ?w) 2 =
      Inr (GridWorld_init\<lparr>xy := Some (13, 10)\<rparr>, ((13, 10), 1, True, None))"
    by code_simp
  from wrapper_delegates [of ?C ?w 2] show ?thesis
    unfolding o a r s by (auto simp add: GymPreprocessing_init_def)
qed

lemma reset_game_over:
  "GymPreprocessing_reset C self = Inr (self', r) \<Longrightarrow> game_over self' = game_over self"
  by (auto simp add: GymPreprocessing_reset_def split: sum.splits)

lemma resets_game_over:
  "resets C n self = Inr self' \<Longrightarrow> game_over self' = game_over self"
proof (induction n arbitrary: self)
  case 0
  then show ?case by simp
next
  case (Suc n)
  from Suc.prems obtain s1 r where r1: "GymPreprocessing_reset C self = Inr (s1, r)"
    and rest: "resets C n s1 = Inr self'"
    by (auto split: sum.splits)
  from Suc.IH [OF rest] reset_game_over [OF r1] show ?case by simp
qed

lemma step_game_over:
  "GymPreprocessing_step C self action = Inr (self', (observation, reward, d, info)) \<Longrightarrow>
   game_over self' = d"
  by (auto simp add: GymPreprocessing_step_def split: sum.splits)

text \<open>
  C10. \<^verbatim>\<open>reset()\<close> leaves \<^verbatim>\<open>game_over\<close> as it was: the constructor sets it to False,
  \<^verbatim>\<open>step\<close> sets it to the done flag it returns, and after a \<^verbatim>\<open>step\<close> the flag keeps
  that value through any number of \<^verbatim>\<open>reset()\<close> calls; so after \<open>done = True\<close> it stays
  True until the next \<^verbatim>\<open>step\<close>.
\<close>

theorem reset_keeps_game_over:
  "game_over (GymPreprocessing_init env) = False \<and>
   (GymPreprocessing_reset C self = Inr (self', r) \<longrightarrow> game_over self' = game_over self) \<and>
   (GymPreprocessing_step C self action = Inr (s1, (observation, reward, d, info)) \<longrightarrow>
      game_over s1 = d \<and> (resets C n s1 = Inr s2 \<longrightarrow> game_over s2 = d))"
  using reset_game_over [of C self self' r] step_game_over [of C self action s1 observation reward d info]
    resets_game_over [of C n s1 s2]
  by (simp add: GymPreprocessing_init_def)

lemma wrapped_step_to_goal:
  "GymPreprocessing_step (GridWorld_class None)
     (GymPreprocessing_init (GridWorld_init\<lparr>xy := Some (12, 10)\<rparr>)) 2 =
   Inr (\<lparr> environment = GridWorld_init\<lparr>xy := Some (13, 10)\<rparr>, game_over = True \<rparr>,
        ((13, 10), 1, True, None))"
  by code_simp

lemma wrapped_resets:
  "resets (GridWorld_class None) 3 \<lparr> environment = GridWorld_init\<lparr>xy := Some (13, 10)\<rparr>, game_over = True \<rparr> =
   Inr \<lparr> environment = GridWorld_init\<lparr>xy := Some (13, 0)\<rparr>, game_over = True \<rparr>"
  by code_simp

theorem reset_keeps_game_over_witness:
  "GymPreprocessing_step (GridWorld_class None)
     (GymPreprocessing_init (GridWorld_init\<lparr>xy := Some (12, 10)\<rparr>)) 2 =
     Inr (\<lparr> environment = GridWorld_init\<lparr>xy := Some (13, 10)\<rparr>, game_over = True \<rparr>,
          ((13, 10), 1, True, None)) \<and>
   resets (GridWorld_class None) 3 \<lparr> environment = GridWorld_init\<lparr>xy := Some (13, 10)\<rparr>, game_over = True \<rparr> =
     Inr \<lparr> environment = GridWorld_init\<lparr>xy := Some (13, 0)\<rparr>, game_over = True \<rparr> \<and>
   game_over \<lparr> environment = GridWorld_init\<lparr>xy := Some (13, 0)\<rparr>, game_over = True \<rparr> = True"
  using reset_keeps_game_over [of "GridWorld_init" "GridWorld_class None"
      "GymPreprocessing_init (GridWorld_init\<lparr>xy := Some (12, 10)\<rparr>)" _ _ 2
      "\<lparr> environment = GridWorld_init\<lparr>xy := Some (13, 10)\<rparr>, game_over = True \<rparr>"
      "(13, 10)" 1 True None 3
      "\<lparr> environment = GridWorld_init\<lparr>xy := Some (13, 0)\<rparr>, game_over = True \<rparr>"]
    wrapped_step_to_goal wrapped_resets
  by simp

section \<open>The network classes\<close>

text \<open>
  \<^verbatim>\<open>BasicDiscreteDomainNetwork\<close>, \<^verbatim>\<open>FourierBasis.compute_features\<close> and the DQN and
  Rainbow networks compute on \<^verbatim>\<open>float32\<close> tensors through TensorFlow operations
  (cast, subtraction, division, matrix product, cosine, reshape, sum). Their results
  depend on the rounding of each arithmetic operation, which this development does not
  model, so nothing is stated about them here. In the two Rainbow networks the attribute
  \<^verbatim>\<open>self.softmax\<close> is bound to the class \<^verbatim>\<open>tf.keras.layers.Softmax\<close> itself, not to
  an instance of it, so that \<^verbatim>\<open>self.softmax(logits)\<close> constructs a layer object instead
  of computing probabilities.
\<close>

end
